theory Spec2Isabelle
  imports Main "HOL-Library.Word"
begin

section \<open>The JNI load hook of react-native-ondevice-ai\<close>

text \<open>
  The translation unit \<^verbatim>\<open>android/src/main/cpp/cpp-adapter.cpp\<close> consists of one function:
  \<^verbatim>\<open>
  JNIEXPORT jint JNICALL JNI_OnLoad(JavaVM* vm, void*) {
    return margelo::nitro::ondeviceai::initialize(vm);
  }
  \<close>
  It declares no global, no static and no local variable. The function
  \<^verbatim>\<open>margelo::nitro::ondeviceai::initialize\<close> is declared in
  \<^verbatim>\<open>NitroOndeviceAiOnLoad.hpp\<close> and defined outside this translation unit, so
  the model takes it as a parameter: a theorem with a free \<open>initialize\<close> holds for every
  initializer.
\<close>

subsection \<open>Values\<close>

text \<open>\<^verbatim>\<open>jint\<close> is a 32-bit signed integer; the \<^verbatim>\<open>int\<close> that the initializer
  returns has the same width on every Android ABI, so the implicit conversion at
  \<^verbatim>\<open>return\<close> is the identity on \<open>32 word\<close>.\<close>

type_synonym jint = "32 word"

text \<open>\<^verbatim>\<open>JavaVM*\<close> and \<^verbatim>\<open>void*\<close> are addresses that the hook never dereferences.\<close>

datatype pointer = Pointer nat

definition nullptr :: pointer where
  "nullptr = Pointer 0"

subsection \<open>Outcomes of a call\<close>

text \<open>A C++ call returns a value, leaves by an exception (the hook has no
  \<^verbatim>\<open>try\<close> block and is not \<^verbatim>\<open>noexcept\<close>), brings the process down, or never
  comes back. The first two leave a state behind.\<close>

datatype ('a, 'st) result =
    Returns 'a 'st
  | Throws string 'st
  | Crashes
  | Diverges

text \<open>What a caller sees of a result, the state left out.\<close>

datatype 'a observation = Returned 'a | Threw string | Crashed | Diverged

fun observe :: "('a, 'st) result \<Rightarrow> 'a observation" where
  "observe (Returns a s) = Returned a"
| "observe (Throws e s) = Threw e"
| "observe Crashes = Crashed"
| "observe Diverges = Diverged"

definition terminates :: "('a, 'st) result \<Rightarrow> bool" where
  "terminates r = (observe r \<noteq> Diverged)"

subsection \<open>The external initializer and the process state\<close>

text \<open>The initializer takes the handle and acts on the state \<open>'x\<close> it can reach: the
  host runtime behind the handle and the native module's own data.\<close>

type_synonym 'x initializer = "pointer \<Rightarrow> 'x \<Rightarrow> (jint, 'x) result"

text \<open>The process state seen from the hook: \<open>shim_data\<close> is whatever storage lies
  outside the initializer's reach (where a copy of the handle would have to go),
  \<open>external\<close> is the state the initializer works on.\<close>

record ('s, 'x) process =
  shim_data :: 's
  external :: 'x

text \<open>Every call of the initializer is recorded, with its argument, in the trace of the
  computation; the trace is produced even when the call does not come back.\<close>

datatype event = Initialize_call pointer

type_synonym ('a, 'st) comp = "'st \<Rightarrow> event list \<times> ('a, 'st) result"

definition return_c :: "'a \<Rightarrow> ('a, 'st) comp" where
  "return_c a = (\<lambda>s. ([], Returns a s))"

definition bind_c :: "('a, 'st) comp \<Rightarrow> ('a \<Rightarrow> ('b, 'st) comp) \<Rightarrow> ('b, 'st) comp" where
  "bind_c m k = (\<lambda>s.
     case m s of
       (t, Returns a s') \<Rightarrow> (case k a s' of (t', r) \<Rightarrow> (t @ t', r))
     | (t, Throws e s') \<Rightarrow> (t, Throws e s')
     | (t, Crashes) \<Rightarrow> (t, Crashes)
     | (t, Diverges) \<Rightarrow> (t, Diverges))"

definition call_initialize :: "'x initializer \<Rightarrow> pointer \<Rightarrow> (jint, ('s, 'x) process) comp" where
  "call_initialize initialize vm = (\<lambda>s.
     ([Initialize_call vm],
      case initialize vm (external s) of
        Returns status x' \<Rightarrow> Returns status (s\<lparr>external := x'\<rparr>)
      | Throws e x' \<Rightarrow> Throws e (s\<lparr>external := x'\<rparr>)
      | Crashes \<Rightarrow> Crashes
      | Diverges \<Rightarrow> Diverges))"

subsection \<open>The load hook\<close>

text \<open>\<^verbatim>\<open>return initialize(vm);\<close> evaluates the call and returns its value. The
  second parameter has no name in the source; it is called \<open>reserved\<close> here.\<close>

definition JNI_OnLoad ::
  "'x initializer \<Rightarrow> pointer \<Rightarrow> pointer \<Rightarrow> (jint, ('s, 'x) process) comp" where
  "JNI_OnLoad initialize vm reserved =
     bind_c (call_initialize initialize vm) (\<lambda>status. return_c status)"

subsection \<open>Codes of the host runtime\<close>

text \<open>The codes that the example initializers below return. The names are those of
  \<^verbatim>\<open><jni.h>\<close>, the platform header that the translation unit includes; the values are
  those of the JNI specification.\<close>

definition JNI_ERR :: jint where "JNI_ERR = - 1"
definition JNI_VERSION_1_1 :: jint where "JNI_VERSION_1_1 = 0x00010001"
definition JNI_VERSION_1_2 :: jint where "JNI_VERSION_1_2 = 0x00010002"
definition JNI_VERSION_1_4 :: jint where "JNI_VERSION_1_4 = 0x00010004"
definition JNI_VERSION_1_6 :: jint where "JNI_VERSION_1_6 = 0x00010006"

definition JNI_versions :: "jint set" where
  "JNI_versions = {JNI_VERSION_1_1, JNI_VERSION_1_2, JNI_VERSION_1_4, JNI_VERSION_1_6}"

text \<open>Modelled from the spec: the contract of the external initializer
  \<^verbatim>\<open>margelo::nitro::ondeviceai::initialize\<close>, whose definition is outside this translation
  unit. The spec describes it as "a single external function accepting an opaque
  runtime-environment handle and returning an integer status", and the value that reaches
  the host as "a status/version code understood by the host runtime (a well-known integer
  value), obtained verbatim from the external initializer's return value". The set \<open>R\<close> of
  codes that the host runtime understands is a parameter: the spec does not list them.\<close>

definition initializer_contract :: "jint set \<Rightarrow> 'x initializer \<Rightarrow> bool" where
  "initializer_contract R initialize =
     (\<forall>vm x status x'. initialize vm x = Returns status x' \<longrightarrow> status \<in> R)"

subsection \<open>Counting the applications of the initializer\<close>

text \<open>The state a result leaves behind, when it leaves one.\<close>

fun final_state :: "('a, 'st) result \<Rightarrow> 'st option" where
  "final_state (Returns a s) = Some s"
| "final_state (Throws e s) = Some s"
| "final_state Crashes = None"
| "final_state Diverges = None"

text \<open>\<open>counted initialize\<close> behaves as \<open>initialize\<close> and, next to the initializer's own
  state, keeps the number of times it has been applied.\<close>

definition counted :: "'x initializer \<Rightarrow> (nat \<times> 'x) initializer" where
  "counted initialize vm = (\<lambda>(n, x).
     case initialize vm x of
       Returns status x' \<Rightarrow> Returns status (Suc n, x')
     | Throws e x' \<Rightarrow> Throws e (Suc n, x')
     | Crashes \<Rightarrow> Crashes
     | Diverges \<Rightarrow> Diverges)"

subsection \<open>Initializers to run the hook on\<close>

text \<open>Example initializers, one for each kind of outcome. \<open>stub_initialize status\<close>
  returns the given status on every handle and changes nothing.\<close>

definition stub_initialize :: "jint \<Rightarrow> 'x initializer" where
  "stub_initialize status vm x = Returns status x"

text \<open>\<open>recording_initialize\<close> keeps the handles it was given, refuses the null handle and
  otherwise reports the JNI version; the others throw, crash, and hang.\<close>

definition recording_initialize :: "pointer list initializer" where
  "recording_initialize vm seen =
     (if vm = nullptr then Returns JNI_ERR seen else Returns JNI_VERSION_1_6 (seen @ [vm]))"

definition throwing_initialize :: "'x initializer" where
  "throwing_initialize vm x = Throws ''std::runtime_error'' x"

definition crashing_initialize :: "'x initializer" where
  "crashing_initialize vm x = Crashes"

definition hanging_initialize :: "'x initializer" where
  "hanging_initialize vm x = Diverges"

definition fresh_process :: "(unit, pointer list) process" where
  "fresh_process = \<lparr>shim_data = (), external = []\<rparr>"

definition counting_process :: "(unit, nat \<times> pointer list) process" where
  "counting_process = \<lparr>shim_data = (), external = (0, [])\<rparr>"

text \<open>Two process states that differ in the storage outside the initializer's reach and
  in the state the initializer works on.\<close>

definition used_process :: "(pointer list, pointer list) process" where
  "used_process = \<lparr>shim_data = [Pointer 4096], external = [Pointer 5]\<rparr>"

definition blank_process :: "(pointer list, pointer list) process" where
  "blank_process = \<lparr>shim_data = [], external = []\<rparr>"

section \<open>Basic facts\<close>

lemma bind_c_return_c: "bind_c m (\<lambda>a. return_c a) = m"
  by (rule ext) (simp add: bind_c_def return_c_def split: prod.split result.split)

lemma JNI_OnLoad_is_call: "JNI_OnLoad initialize vm reserved = call_initialize initialize vm"
  unfolding JNI_OnLoad_def by (rule bind_c_return_c)

lemma call_initialize_trace: "fst (call_initialize initialize vm s) = [Initialize_call vm]"
  by (simp add: call_initialize_def)

lemma call_initialize_observe:
  "observe (snd (call_initialize initialize vm s)) = observe (initialize vm (external s))"
  by (simp add: call_initialize_def split: result.split)

lemma call_initialize_Returns:
  "snd (call_initialize initialize vm s) = Returns r s' \<longleftrightarrow>
     (\<exists>x'. initialize vm (external s) = Returns r x' \<and> s' = s\<lparr>external := x'\<rparr>)"
  by (auto simp add: call_initialize_def split: result.splits)

lemma observe_Returned: "observe r = Returned a \<longleftrightarrow> (\<exists>s. r = Returns a s)"
  by (cases r) simp_all

lemma call_initialize_counted:
  "final_state (snd (call_initialize (counted initialize) vm c)) = Some c' \<Longrightarrow>
     fst (external c') = Suc (fst (external c))"
  by (cases "external c")
    (auto simp add: call_initialize_def counted_def split: result.splits)

section \<open>The claims\<close>

text \<open>C1: for every handle \<open>h\<close>, the hook called with \<open>h\<close> calls the initializer with
  exactly \<open>h\<close> and returns exactly the integer the initializer returns. Whenever the
  initializer returns \<open>r\<close> on \<open>h\<close>, the hook's trace is the one call with argument \<open>h\<close>,
  its value is \<open>r\<close>, and the state is the one the initializer left.\<close>

theorem JNI_OnLoad_forwards:
  assumes "initialize h (external s) = Returns r x'"
  shows "JNI_OnLoad initialize h reserved s =
           ([Initialize_call h], Returns r (s\<lparr>external := x'\<rparr>))"
  using assms by (simp add: JNI_OnLoad_is_call call_initialize_def)

theorem JNI_OnLoad_forwards_witness:
  "recording_initialize (Pointer 4096) (external fresh_process) =
     Returns JNI_VERSION_1_6 [Pointer 4096] \<and>
   JNI_OnLoad recording_initialize (Pointer 4096) nullptr fresh_process =
     ([Initialize_call (Pointer 4096)],
      Returns JNI_VERSION_1_6 (fresh_process\<lparr>external := [Pointer 4096]\<rparr>))"
proof -
  have h: "recording_initialize (Pointer 4096) (external fresh_process) =
             Returns JNI_VERSION_1_6 [Pointer 4096]"
    by (simp add: recording_initialize_def fresh_process_def nullptr_def)
  from h JNI_OnLoad_forwards [where initialize = recording_initialize and h = "Pointer 4096"
      and s = fresh_process and reserved = nullptr, OF h]
  show ?thesis by simp
qed

text \<open>C2: for every integer the initializer may return (a success code, a failure code or
  any other value), the hook returns that integer: it does not throw, does not crash,
  does not hang and does not change the value. It does nothing but the forwarded call, so
  when the initializer returns on every input, so does the hook.\<close>

theorem JNI_OnLoad_returns_when_initializer_returns:
  "(\<forall>r. observe (initialize vm (external s)) = Returned r \<longrightarrow>
      observe (snd (JNI_OnLoad initialize vm reserved s)) = Returned r \<and>
      (\<forall>e. observe (snd (JNI_OnLoad initialize vm reserved s)) \<noteq> Threw e) \<and>
      observe (snd (JNI_OnLoad initialize vm reserved s)) \<noteq> Crashed \<and>
      observe (snd (JNI_OnLoad initialize vm reserved s)) \<noteq> Diverged) \<and>
   ((\<forall>h x. \<exists>r. observe (initialize h x) = Returned r) \<longrightarrow>
      (\<exists>r. observe (snd (JNI_OnLoad initialize vm reserved s)) = Returned r))"
  by (simp add: JNI_OnLoad_is_call call_initialize_observe)

theorem JNI_OnLoad_returns_when_initializer_returns_witness:
  "observe (stub_initialize 12345 (Pointer 8) (external fresh_process)) = Returned 12345 \<and>
   (\<forall>h x. \<exists>r. observe (stub_initialize 12345 h (x :: pointer list)) = Returned r) \<and>
   observe (snd (JNI_OnLoad (stub_initialize 12345) (Pointer 8) nullptr fresh_process)) =
     Returned 12345"
  using JNI_OnLoad_returns_when_initializer_returns [where initialize = "stub_initialize 12345"
      and vm = "Pointer 8" and s = fresh_process and reserved = nullptr]
  by (simp add: stub_initialize_def)

text \<open>C3: whenever the initializer returns a status that is not a success, the hook returns
  that same status to the host runtime. The hook does not interpret the status (the
  statement holds for every classification \<open>success\<close> of the codes), does not retry (the
  trace holds one call), does not recover and does not substitute another value (the value
  and the state are the initializer's).\<close>

theorem JNI_OnLoad_failure_verbatim:
  assumes "initialize vm (external s) = Returns status x'"
    and "\<not> success status"
  shows "snd (JNI_OnLoad initialize vm reserved s) = Returns status (s\<lparr>external := x'\<rparr>) \<and>
         fst (JNI_OnLoad initialize vm reserved s) = [Initialize_call vm]"
  using assms(1) by (simp add: JNI_OnLoad_is_call call_initialize_def)

theorem JNI_OnLoad_failure_verbatim_witness:
  "recording_initialize nullptr (external fresh_process) = Returns JNI_ERR [] \<and>
   JNI_ERR \<notin> JNI_versions \<and>
   snd (JNI_OnLoad recording_initialize nullptr nullptr fresh_process) =
     Returns JNI_ERR fresh_process \<and>
   fst (JNI_OnLoad recording_initialize nullptr nullptr fresh_process) =
     [Initialize_call nullptr]"
proof -
  have h: "recording_initialize nullptr (external fresh_process) = Returns JNI_ERR []"
    by (simp add: recording_initialize_def fresh_process_def)
  have f: "\<not> (JNI_ERR \<in> JNI_versions)"
    by (simp add: JNI_versions_def JNI_ERR_def JNI_VERSION_1_1_def JNI_VERSION_1_2_def
        JNI_VERSION_1_4_def JNI_VERSION_1_6_def)
  from h f JNI_OnLoad_failure_verbatim [where initialize = recording_initialize
      and vm = nullptr and s = fresh_process and reserved = nullptr
      and success = "\<lambda>c. c \<in> JNI_versions", OF h f]
  show ?thesis by (simp add: fresh_process_def)
qed

text \<open>C4: one invocation of the hook invokes the initializer exactly once, with neither a
  retry nor a duplicate, whether the initializer reports success or failure. The trace of
  the hook is the single call, and the hook's result is the outcome of one application of
  the initializer to the state before the call, with the state that this one application
  left. For an initializer that counts its own applications, the count after the hook is
  one more than before.\<close>

theorem JNI_OnLoad_calls_once:
  "JNI_OnLoad initialize vm reserved s =
     ([Initialize_call vm],
      case initialize vm (external s) of
        Returns status x' \<Rightarrow> Returns status (s\<lparr>external := x'\<rparr>)
      | Throws e x' \<Rightarrow> Throws e (s\<lparr>external := x'\<rparr>)
      | Crashes \<Rightarrow> Crashes
      | Diverges \<Rightarrow> Diverges) \<and>
   (final_state (snd (JNI_OnLoad (counted initialize) vm reserved c)) = Some c' \<longrightarrow>
      fst (external c') = Suc (fst (external c)))"
  by (simp add: JNI_OnLoad_is_call call_initialize_counted) (simp add: call_initialize_def)

theorem JNI_OnLoad_calls_once_witness:
  "JNI_OnLoad recording_initialize nullptr (Pointer 3) fresh_process =
     ([Initialize_call nullptr], Returns JNI_ERR fresh_process) \<and>
   final_state (snd (JNI_OnLoad (counted recording_initialize) nullptr (Pointer 3)
                       counting_process)) =
     Some (counting_process\<lparr>external := (1, [])\<rparr>) \<and>
   fst (external (counting_process\<lparr>external := (1, [])\<rparr>)) =
     Suc (fst (external counting_process))"
proof -
  have h: "final_state (snd (JNI_OnLoad (counted recording_initialize) nullptr (Pointer 3)
                               counting_process)) =
             Some (counting_process\<lparr>external := (1, [])\<rparr>)"
    by (simp add: JNI_OnLoad_def bind_c_def return_c_def call_initialize_def counted_def
        recording_initialize_def counting_process_def)
  from h JNI_OnLoad_calls_once [where initialize = recording_initialize and vm = nullptr
      and reserved = "Pointer 3" and s = fresh_process and c = counting_process
      and c' = "counting_process\<lparr>external := (1, [])\<rparr>"]
  show ?thesis by (simp add: recording_initialize_def fresh_process_def)
qed

text \<open>C5: the hook neither stores nor mutates the handle. After the hook has returned, the
  storage outside the initializer's reach is what it was (no copy of the handle was kept),
  and the state reachable through the handle is the one the initializer itself produced
  from the state before the call: the hook adds no change of its own.\<close>

theorem JNI_OnLoad_frame:
  assumes "snd (JNI_OnLoad initialize vm reserved s) = Returns r s'"
  shows "shim_data s' = shim_data s \<and>
         initialize vm (external s) = Returns r (external s')"
  using assms by (auto simp add: JNI_OnLoad_is_call call_initialize_Returns)

theorem JNI_OnLoad_frame_witness:
  "snd (JNI_OnLoad recording_initialize (Pointer 4096) (Pointer 77)
          \<lparr>shim_data = [Pointer 1], external = [Pointer 2]\<rparr>) =
     Returns JNI_VERSION_1_6 \<lparr>shim_data = [Pointer 1], external = [Pointer 2, Pointer 4096]\<rparr> \<and>
   shim_data \<lparr>shim_data = [Pointer 1], external = [Pointer 2, Pointer 4096]\<rparr> = [Pointer 1] \<and>
   recording_initialize (Pointer 4096) [Pointer 2] =
     Returns JNI_VERSION_1_6 [Pointer 2, Pointer 4096]"
proof -
  have h: "snd (JNI_OnLoad recording_initialize (Pointer 4096) (Pointer 77)
                  \<lparr>shim_data = [Pointer 1], external = [Pointer 2]\<rparr>) =
             Returns JNI_VERSION_1_6
               \<lparr>shim_data = [Pointer 1], external = [Pointer 2, Pointer 4096]\<rparr>"
    by (simp add: JNI_OnLoad_def bind_c_def return_c_def call_initialize_def
        recording_initialize_def nullptr_def)
  from h JNI_OnLoad_frame [OF h] show ?thesis by simp
qed

text \<open>C6: for every invocation, the value the hook returns is a status/version code
  understood by the host runtime, obtained verbatim from the initializer's return value.
  For every set \<open>R\<close> of codes that the host runtime understands and every initializer that
  keeps its contract of returning such codes only, a value returned by the hook is the
  value returned by the initializer on the same handle and state, and it lies in \<open>R\<close>.\<close>

theorem JNI_OnLoad_code_understood:
  assumes "initializer_contract R initialize"
    and "snd (JNI_OnLoad initialize vm reserved s) = Returns status s'"
  shows "initialize vm (external s) = Returns status (external s') \<and> status \<in> R"
proof -
  from assms(2) have r: "initialize vm (external s) = Returns status (external s')"
    by (auto simp add: JNI_OnLoad_is_call call_initialize_Returns)
  with assms(1) have "status \<in> R"
    unfolding initializer_contract_def by blast
  with r show ?thesis by simp
qed

theorem JNI_OnLoad_code_understood_witness:
  "initializer_contract (insert JNI_ERR JNI_versions) recording_initialize \<and>
   snd (JNI_OnLoad recording_initialize (Pointer 4096) nullptr fresh_process) =
     Returns JNI_VERSION_1_6 (fresh_process\<lparr>external := [Pointer 4096]\<rparr>) \<and>
   recording_initialize (Pointer 4096) (external fresh_process) =
     Returns JNI_VERSION_1_6 (external (fresh_process\<lparr>external := [Pointer 4096]\<rparr>)) \<and>
   JNI_VERSION_1_6 \<in> insert JNI_ERR JNI_versions"
proof -
  have c: "initializer_contract (insert JNI_ERR JNI_versions) recording_initialize"
    by (auto simp add: initializer_contract_def recording_initialize_def JNI_versions_def
        split: if_splits)
  have h: "snd (JNI_OnLoad recording_initialize (Pointer 4096) nullptr fresh_process) =
             Returns JNI_VERSION_1_6 (fresh_process\<lparr>external := [Pointer 4096]\<rparr>)"
    by (simp add: JNI_OnLoad_def bind_c_def return_c_def call_initialize_def
        recording_initialize_def fresh_process_def nullptr_def)
  from c h JNI_OnLoad_code_understood [OF c h] show ?thesis by blast
qed

text \<open>C7: the hook has no blocking, suspension or loop of its own: an invocation of the
  hook terminates if and only if the forwarded call of the initializer terminates.\<close>

theorem JNI_OnLoad_terminates_iff:
  "terminates (snd (JNI_OnLoad initialize vm reserved s)) \<longleftrightarrow>
   terminates (initialize vm (external s))"
  by (simp add: terminates_def JNI_OnLoad_is_call call_initialize_observe)

theorem JNI_OnLoad_terminates_iff_witness:
  "\<not> terminates (hanging_initialize (Pointer 4096) (external fresh_process)) \<and>
   \<not> terminates (snd (JNI_OnLoad hanging_initialize (Pointer 4096) nullptr fresh_process)) \<and>
   terminates (crashing_initialize (Pointer 4096) (external fresh_process)) \<and>
   terminates (snd (JNI_OnLoad crashing_initialize (Pointer 4096) nullptr fresh_process))"
  using JNI_OnLoad_terminates_iff [where initialize = hanging_initialize
      and vm = "Pointer 4096" and s = fresh_process and reserved = nullptr]
    JNI_OnLoad_terminates_iff [where initialize = crashing_initialize
      and vm = "Pointer 4096" and s = fresh_process and reserved = nullptr]
  by (simp add: terminates_def hanging_initialize_def crashing_initialize_def)

text \<open>C8: the shim holds no state of its own. Two invocations with the same handle, on
  which the initializer behaves the same, give the same result, whatever the rest of the
  two process states (the storage outside the initializer's reach, and so anything an
  earlier invocation could have left there) and whatever the reserved arguments.\<close>

theorem JNI_OnLoad_stateless:
  assumes "observe (initialize vm (external s)) = observe (initialize vm (external s'))"
  shows "observe (snd (JNI_OnLoad initialize vm reserved s)) =
         observe (snd (JNI_OnLoad initialize vm reserved' s'))"
  using assms by (simp add: JNI_OnLoad_is_call call_initialize_observe)

theorem JNI_OnLoad_stateless_witness:
  "observe (recording_initialize (Pointer 4096) (external used_process)) =
   observe (recording_initialize (Pointer 4096) (external blank_process)) \<and>
   observe (snd (JNI_OnLoad recording_initialize (Pointer 4096) nullptr used_process)) =
   observe (snd (JNI_OnLoad recording_initialize (Pointer 4096) (Pointer 9) blank_process)) \<and>
   shim_data used_process \<noteq> shim_data blank_process"
proof -
  have h: "observe (recording_initialize (Pointer 4096) (external used_process)) =
           observe (recording_initialize (Pointer 4096) (external blank_process))"
    by (simp add: recording_initialize_def nullptr_def)
  have d: "shim_data used_process \<noteq> shim_data blank_process"
    by (simp add: used_process_def blank_process_def)
  from JNI_OnLoad_stateless [where initialize = recording_initialize
      and vm = "Pointer 4096" and reserved = nullptr and reserved' = "Pointer 9"
      and s = used_process and s' = blank_process, OF h]
  have "observe (snd (JNI_OnLoad recording_initialize (Pointer 4096) nullptr used_process)) =
        observe (snd (JNI_OnLoad recording_initialize (Pointer 4096) (Pointer 9) blank_process))" .
  with h d show ?thesis by blast
qed

text \<open>C9: the second parameter of the hook is ignored: two invocations that differ in the
  reserved argument only make the same call of the initializer and give the same result
  (the same trace, value and state).\<close>

theorem JNI_OnLoad_ignores_reserved:
  "JNI_OnLoad initialize vm reserved s = JNI_OnLoad initialize vm reserved' s"
  by (simp add: JNI_OnLoad_def)

text \<open>C10: the hook does not validate the handle. Every handle, the null pointer
  included, is passed to the initializer, and what the hook does is what the initializer
  does on that handle: no handle is rejected by the hook itself.\<close>

theorem JNI_OnLoad_no_validation:
  "fst (JNI_OnLoad initialize nullptr reserved s) = [Initialize_call nullptr] \<and>
   observe (snd (JNI_OnLoad initialize nullptr reserved s)) =
     observe (initialize nullptr (external s)) \<and>
   (\<forall>vm. fst (JNI_OnLoad initialize vm reserved s) = [Initialize_call vm] \<and>
         observe (snd (JNI_OnLoad initialize vm reserved s)) =
           observe (initialize vm (external s)))"
  by (simp add: JNI_OnLoad_is_call call_initialize_trace call_initialize_observe)

theorem JNI_OnLoad_no_validation_witness:
  "JNI_OnLoad recording_initialize nullptr (Pointer 3) fresh_process =
     ([Initialize_call nullptr], Returns JNI_ERR fresh_process)"
  using JNI_OnLoad_no_validation [where initialize = recording_initialize
      and s = fresh_process and reserved = "Pointer 3"]
  by (simp add: JNI_OnLoad_def bind_c_def return_c_def call_initialize_def
      recording_initialize_def fresh_process_def)

end
